theory Spec2Isabelle
  imports Complex_Main
begin

section \<open>Entity schema\<close>

text \<open>
  The tables of the shared schema, one record per \<^verbatim>\<open>pgTable\<close>. A column declared
  \<^verbatim>\<open>notNull()\<close> (or a primary key) has its plain type; any other column is nullable and
  has an option type, \<open>None\<close> standing for SQL NULL. Every field carries the
  prefix of its table (\<open>u_\<close>, \<open>sa_\<close>, \<open>a_\<close>, \<open>e_\<close>), since several tables share
  column names and \<open>id\<close> is a constant of HOL. A \<^verbatim>\<open>timestamp\<close> is an integer
  (milliseconds since the epoch).
\<close>

datatype role = Admin | Teacher | Student

datatype promotion_status = Pending | Promoted | Retained

datatype attendance_status = Present | Absent | Late

type_synonym timestamp = int

record user =
  u_id :: int
  u_username :: string
  u_password :: string
  u_role :: role
  u_fullName :: string
  u_email :: string
  u_profilePicture :: "string option"
  u_currentClassId :: "int option"
  u_academicYear :: "int option"

record student_academics =
  sa_id :: int
  sa_studentId :: int
  sa_classLevelId :: int
  sa_academicYear :: int
  sa_overallGrade :: "string option"
  sa_promotionStatus :: "promotion_status option"
  sa_remarks :: "string option"

record attendance_row =
  a_id :: int
  a_userId :: int
  a_subjectId :: int
  a_classLevelId :: int
  a_date :: timestamp
  a_status :: attendance_status
  a_markedBy :: int
  a_notes :: "string option"
  a_notificationSent :: "bool option"

record exam_result =
  e_id :: int
  e_studentId :: int
  e_subjectId :: int
  e_academicYear :: int
  e_term :: int
  e_marks :: int
  e_grade :: string
  e_examDate :: timestamp

section \<open>The relational store\<close>

text \<open>
  The store is the state every storage method reads and writes through the \<^verbatim>\<open>db\<close>
  handle: one list of rows per table, in insertion order, and the next value of the
  \<^verbatim>\<open>serial\<close> sequence of each table the server inserts into.
\<close>

record db =
  users :: "user list"
  studentAcademics :: "student_academics list"
  attendance :: "attendance_row list"
  examResults :: "exam_result list"
  studentAcademics_id_seq :: int
  attendance_id_seq :: int

text \<open>
  A JavaScript \<^verbatim>\<open>number\<close> that reaches the store as an identifier is what
  \<^verbatim>\<open>parseInt\<close> returns: an integer or \<^verbatim>\<open>NaN\<close>.
\<close>

datatype jsnum = NaN | Num int

text \<open>
  A statement sent to the database either completes or is rejected, and a rejected
  statement throws in the awaiting method and leaves every table as it was. Rejection has
  causes the server code does not control (a lost connection, a violated constraint of the
  schema), so each storage method takes, besides its arguments, the outcome the backend
  decides for each statement it sends: \<open>fs k\<close> says that the backend fails the
  \<open>k\<close>-th statement of the call. A statement whose \<^verbatim>\<open>where\<close> clause compares the integer
  key with \<^verbatim>\<open>NaN\<close> is rejected by the backend in any case.
\<close>

datatype exn = StatementFailed | NoValuesToSet | TypeError

type_synonym faults = "nat \<Rightarrow> bool"

type_synonym 'a io = "db \<Rightarrow> (exn + 'a) \<times> db"

text \<open>
  The argument of \<^verbatim>\<open>updateUser\<close> has type \<^verbatim>\<open>Partial<Omit<User, "id" | "password">>\<close>:
  every column of the table but the key and the password, each one optional. A field that
  is \<open>None\<close> is absent from the object; for a nullable column the inner option is the
  value to store.
\<close>

record user_update =
  set_username :: "string option"
  set_role :: "role option"
  set_fullName :: "string option"
  set_email :: "string option"
  set_profilePicture :: "string option option"
  set_currentClassId :: "int option option"
  set_academicYear :: "int option option"

definition no_values :: "user_update \<Rightarrow> bool" where
  "no_values data \<longleftrightarrow>
     set_username data = None \<and> set_role data = None \<and> set_fullName data = None \<and>
     set_email data = None \<and> set_profilePicture data = None \<and>
     set_currentClassId data = None \<and> set_academicYear data = None"

definition or_else :: "'a option \<Rightarrow> 'a \<Rightarrow> 'a" where
  "or_else v old = (case v of None \<Rightarrow> old | Some new \<Rightarrow> new)"

text \<open>\<^verbatim>\<open>SET\<close> of an update: the columns named by the object get its values, the others stay.\<close>

definition apply_set :: "user_update \<Rightarrow> user \<Rightarrow> user" where
  "apply_set data u =
     u\<lparr> u_username := or_else (set_username data) (u_username u),
        u_role := or_else (set_role data) (u_role u),
        u_fullName := or_else (set_fullName data) (u_fullName u),
        u_email := or_else (set_email data) (u_email u),
        u_profilePicture := or_else (set_profilePicture data) (u_profilePicture u),
        u_currentClassId := or_else (set_currentClassId data) (u_currentClassId u),
        u_academicYear := or_else (set_academicYear data) (u_academicYear u) \<rparr>"

text \<open>
  \<^verbatim>\<open>db.update(users).set(data).where(eq(users.id, id)).returning()\<close>. The query builder
  throws on an object with no value to set before anything is sent; otherwise every row
  with the key is rewritten and the rewritten rows are returned.
\<close>

definition update_users :: "bool \<Rightarrow> user_update \<Rightarrow> jsnum \<Rightarrow> (user list) io" where
  "update_users failed data i d =
     (if no_values data then (Inl NoValuesToSet, d)
      else case i of
        NaN \<Rightarrow> (Inl StatementFailed, d)
      | Num n \<Rightarrow>
          if failed then (Inl StatementFailed, d)
          else (Inr (map (apply_set data) (filter (\<lambda>u. u_id u = n) (users d))),
                d\<lparr>users := map (\<lambda>u. if u_id u = n then apply_set data u else u) (users d)\<rparr>))"

text \<open>\<^verbatim>\<open>db.delete(users).where(eq(users.id, id))\<close>: the rows with the key are removed.\<close>

definition delete_users :: "bool \<Rightarrow> jsnum \<Rightarrow> unit io" where
  "delete_users failed i d =
     (case i of
        NaN \<Rightarrow> (Inl StatementFailed, d)
      | Num n \<Rightarrow>
          if failed then (Inl StatementFailed, d)
          else (Inr (), d\<lparr>users := filter (\<lambda>u. u_id u \<noteq> n) (users d)\<rparr>))"

text \<open>
  \<^verbatim>\<open>db.insert(studentAcademics).values({studentId, classLevelId, academicYear,
  promotionStatus})\<close>: the key comes from the sequence, the columns not named are NULL.
\<close>

definition insert_studentAcademics ::
  "bool \<Rightarrow> jsnum \<Rightarrow> int \<Rightarrow> int \<Rightarrow> promotion_status \<Rightarrow> unit io" where
  "insert_studentAcademics failed studentId classLevelId academicYear promotionStatus d =
     (case studentId of
        NaN \<Rightarrow> (Inl StatementFailed, d)
      | Num n \<Rightarrow>
          if failed then (Inl StatementFailed, d)
          else (Inr (),
                d\<lparr>studentAcademics := studentAcademics d @
                     [\<lparr>sa_id = studentAcademics_id_seq d, sa_studentId = n,
                       sa_classLevelId = classLevelId, sa_academicYear = academicYear,
                       sa_overallGrade = None, sa_promotionStatus = Some promotionStatus,
                       sa_remarks = None\<rparr>],
                  studentAcademics_id_seq := studentAcademics_id_seq d + 1\<rparr>))"

section \<open>Persistence gateway\<close>

text \<open>
  \<^verbatim>\<open>DatabaseStorage.updateUser\<close>: the first returned row, \<^verbatim>\<open>undefined\<close> (here \<open>None\<close>)
  when the statement returned none.
\<close>

definition updateUser :: "faults \<Rightarrow> jsnum \<Rightarrow> user_update \<Rightarrow> (user option) io" where
  "updateUser fs i data d =
     (case update_users (fs 0) data i d of
        (Inl e, d') \<Rightarrow> (Inl e, d')
      | (Inr rows, d') \<Rightarrow> (Inr (case rows of [] \<Rightarrow> None | u # _ \<Rightarrow> Some u), d'))"

definition deleteUser :: "faults \<Rightarrow> jsnum \<Rightarrow> unit io" where
  "deleteUser fs i d = delete_users (fs 0) i d"

text \<open>
  \<^verbatim>\<open>DatabaseStorage.promoteStudent\<close>: two statements, one after the other, each awaited.
  An exception of the first leaves the method before the second is sent.
\<close>

definition promoteStudent :: "faults \<Rightarrow> jsnum \<Rightarrow> int \<Rightarrow> int \<Rightarrow> unit io" where
  "promoteStudent fs studentId newClassId academicYear d =
     (case update_users (fs 0)
             \<lparr>set_username = None, set_role = None, set_fullName = None, set_email = None,
              set_profilePicture = None, set_currentClassId = Some (Some newClassId),
              set_academicYear = Some (Some academicYear)\<rparr> studentId d of
        (Inl e, d1) \<Rightarrow> (Inl e, d1)
      | (Inr _, d1) \<Rightarrow>
          insert_studentAcademics (fs 1) studentId newClassId academicYear Pending d1)"

text \<open>
  \<^verbatim>\<open>getAttendanceByUser\<close> and \<^verbatim>\<open>getAttendanceByClass\<close>: one \<^verbatim>\<open>select\<close> each. The
  class is a number that may be \<^verbatim>\<open>NaN\<close> and the date a \<^verbatim>\<open>Date\<close> that may be invalid
  (\<open>None\<close>); neither can be sent as a parameter of the statement.
\<close>

definition getAttendanceByUser :: "faults \<Rightarrow> int \<Rightarrow> (attendance_row list) io" where
  "getAttendanceByUser fs userId d =
     (if fs 0 then (Inl StatementFailed, d)
      else (Inr (filter (\<lambda>a. a_userId a = userId) (attendance d)), d))"

definition getAttendanceByClass ::
  "faults \<Rightarrow> jsnum \<Rightarrow> timestamp option \<Rightarrow> (attendance_row list) io" where
  "getAttendanceByClass fs classId date d =
     (case (classId, date) of
        (Num c, Some t) \<Rightarrow>
          if fs 0 then (Inl StatementFailed, d)
          else (Inr (filter (\<lambda>a. a_classLevelId a = c \<and> a_date a = t) (attendance d)), d)
      | _ \<Rightarrow> (Inl StatementFailed, d))"

text \<open>
  The data \<^verbatim>\<open>createAttendance\<close> receives from its only caller is the output of
  \<^verbatim>\<open>insertAttendanceSchema\<close>: the columns of the table without \<^verbatim>\<open>id\<close> and
  \<^verbatim>\<open>notificationSent\<close>. The key comes from the sequence and \<^verbatim>\<open>notificationSent\<close> takes
  its default \<^verbatim>\<open>false\<close>; the method returns the first row of \<^verbatim>\<open>returning()\<close>.
\<close>

record attendance_insert =
  ins_userId :: int
  ins_subjectId :: int
  ins_classLevelId :: int
  ins_date :: timestamp
  ins_status :: attendance_status
  ins_markedBy :: int
  ins_notes :: "string option"

definition insert_attendance :: "bool \<Rightarrow> attendance_insert \<Rightarrow> (attendance_row list) io" where
  "insert_attendance failed attendanceData d =
     (if failed then (Inl StatementFailed, d)
      else
        let row = \<lparr>a_id = attendance_id_seq d, a_userId = ins_userId attendanceData,
                   a_subjectId = ins_subjectId attendanceData,
                   a_classLevelId = ins_classLevelId attendanceData,
                   a_date = ins_date attendanceData, a_status = ins_status attendanceData,
                   a_markedBy = ins_markedBy attendanceData,
                   a_notes = ins_notes attendanceData, a_notificationSent = Some False\<rparr>
        in (Inr [row],
            d\<lparr>attendance := attendance d @ [row],
              attendance_id_seq := attendance_id_seq d + 1\<rparr>))"

definition createAttendance :: "faults \<Rightarrow> attendance_insert \<Rightarrow> (attendance_row option) io" where
  "createAttendance fs attendanceData d =
     (case insert_attendance (fs 0) attendanceData d of
        (Inl e, d') \<Rightarrow> (Inl e, d')
      | (Inr rows, d') \<Rightarrow> (Inr (case rows of [] \<Rightarrow> None | r # _ \<Rightarrow> Some r), d'))"

section \<open>API surface\<close>

text \<open>
  A request as the handlers read it: the authenticated user of the session
  (\<^verbatim>\<open>req.isAuthenticated()\<close> holds exactly when \<^verbatim>\<open>req.user\<close> is there), the \<^verbatim>\<open>:id\<close>
  segment of the path, the two query parameters of the attendance listing and the parsed
  body. A body is any value: an object is the list of its properties, the first binding
  of a name being its value. Numbers in a body are integers.
\<close>

datatype jsval =
    JNull
  | JBool bool
  | JNum int
  | JStr string
  | JDate timestamp
  | JArr "jsval list"
  | JObj "(string \<times> jsval) list"

record request =
  req_user :: "user option"
  req_params_id :: string
  req_query_classId :: "string option"
  req_query_date :: "string option"
  req_body :: "jsval option"

text \<open>
  What the handlers call and the repository does not define: \<^verbatim>\<open>parseInt\<close>,
  \<^verbatim>\<open>new Date(string)\<close> (\<open>None\<close> is an invalid date) and the test behind
  \<^verbatim>\<open>z.string().email()\<close>. They are parameters of the handlers.
\<close>

record builtins =
  parseInt :: "string \<Rightarrow> jsnum"
  newDate :: "string \<Rightarrow> timestamp option"
  isEmail :: "string \<Rightarrow> bool"

text \<open>
  A handler either sends a response, a status with a payload, or rejects without sending
  one, when an exception escapes it.
\<close>

datatype payload =
    Text string
  | Json_message string
  | Json_zod_error
  | Json_user "user option"
  | Json_attendance_list "attendance_row list"
  | Json_attendance "attendance_row option"

datatype result = Sent nat payload | Unhandled exn

definition requireAdmin :: "request \<Rightarrow> (db \<Rightarrow> result \<times> db) \<Rightarrow> db \<Rightarrow> result \<times> db" where
  "requireAdmin req nxt d =
     (case req_user req of
        None \<Rightarrow> (Sent 401 (Text ''Unauthorized''), d)
      | Some caller \<Rightarrow>
          if u_role caller \<noteq> Admin then (Sent 403 (Text ''Forbidden''), d)
          else nxt d)"

definition requireTeacher :: "request \<Rightarrow> (db \<Rightarrow> result \<times> db) \<Rightarrow> db \<Rightarrow> result \<times> db" where
  "requireTeacher req nxt d =
     (case req_user req of
        None \<Rightarrow> (Sent 401 (Text ''Unauthorized''), d)
      | Some caller \<Rightarrow>
          if u_role caller \<noteq> Teacher \<and> u_role caller \<noteq> Admin
          then (Sent 403 (Text ''Forbidden''), d)
          else nxt d)"

subsection \<open>PATCH /api/users/:id\<close>

text \<open>
  The validators of \<^verbatim>\<open>updateSchema\<close>, each applied to the property of the body with the
  field's name (\<open>None\<close> when the body has no such property). A field is rejected, left out
  or accepted with a value.
\<close>

datatype 'a parsed = Invalid | Missing | Given 'a

definition z_string_min1_optional :: "jsval option \<Rightarrow> string parsed" where
  "z_string_min1_optional v =
     (case v of
        None \<Rightarrow> Missing
      | Some (JStr s) \<Rightarrow> if length s \<ge> 1 then Given s else Invalid
      | Some _ \<Rightarrow> Invalid)"

definition z_string_email_optional :: "builtins \<Rightarrow> jsval option \<Rightarrow> string parsed" where
  "z_string_email_optional js v =
     (case v of
        None \<Rightarrow> Missing
      | Some (JStr s) \<Rightarrow> if isEmail js s then Given s else Invalid
      | Some _ \<Rightarrow> Invalid)"

definition z_string_optional :: "jsval option \<Rightarrow> string parsed" where
  "z_string_optional v =
     (case v of None \<Rightarrow> Missing | Some (JStr s) \<Rightarrow> Given s | Some _ \<Rightarrow> Invalid)"

definition z_enum_role_optional :: "jsval option \<Rightarrow> role parsed" where
  "z_enum_role_optional v =
     (case v of
        None \<Rightarrow> Missing
      | Some (JStr s) \<Rightarrow>
          if s = ''admin'' then Given Admin
          else if s = ''teacher'' then Given Teacher
          else if s = ''student'' then Given Student
          else Invalid
      | Some _ \<Rightarrow> Invalid)"

definition z_undefined :: "jsval option \<Rightarrow> role parsed" where
  "z_undefined v = (case v of None \<Rightarrow> Missing | Some _ \<Rightarrow> Invalid)"

definition given :: "'a parsed \<Rightarrow> 'a option" where
  "given p = (case p of Given x \<Rightarrow> Some x | _ \<Rightarrow> None)"

text \<open>
  \<^verbatim>\<open>updateSchema.safeParse(req.body)\<close>, the schema being built for the caller: a body that
  is not an object fails; the four fields are validated, properties of other names are
  dropped, and the parse succeeds when no field is rejected.
\<close>

definition updateSchema :: "builtins \<Rightarrow> user \<Rightarrow> jsval option \<Rightarrow> user_update option" where
  "updateSchema js caller b =
     (case b of
        Some (JObj kv) \<Rightarrow>
          let fullName = z_string_min1_optional (map_of kv ''fullName'');
              email = z_string_email_optional js (map_of kv ''email'');
              profilePicture = z_string_optional (map_of kv ''profilePicture'');
              role = (if u_role caller = Admin then z_enum_role_optional (map_of kv ''role'')
                      else z_undefined (map_of kv ''role''))
          in if fullName = Invalid \<or> email = Invalid \<or> profilePicture = Invalid \<or> role = Invalid
             then None
             else Some \<lparr>set_username = None, set_role = given role,
                        set_fullName = given fullName, set_email = given email,
                        set_profilePicture = map_option Some (given profilePicture),
                        set_currentClassId = None, set_academicYear = None\<rparr>
      | _ \<Rightarrow> None)"

definition patch_user :: "builtins \<Rightarrow> faults \<Rightarrow> request \<Rightarrow> db \<Rightarrow> result \<times> db" where
  "patch_user js fs req d =
     (case req_user req of
        None \<Rightarrow> (Sent 401 (Text ''Unauthorized''), d)
      | Some caller \<Rightarrow>
          if u_role caller \<noteq> Admin \<and> parseInt js (req_params_id req) \<noteq> Num (u_id caller)
          then (Sent 403 (Text ''Forbidden''), d)
          else
            (case updateSchema js caller (req_body req) of
               None \<Rightarrow> (Sent 400 Json_zod_error, d)
             | Some data \<Rightarrow>
                 (case updateUser fs (parseInt js (req_params_id req)) data d of
                    (Inr user, d') \<Rightarrow> (Sent 200 (Json_user user), d')
                  | (Inl e, d') \<Rightarrow> (Sent 404 (Json_message ''User not found''), d'))))"

subsection \<open>DELETE /api/users/:id\<close>

definition delete_user :: "builtins \<Rightarrow> faults \<Rightarrow> request \<Rightarrow> db \<Rightarrow> result \<times> db" where
  "delete_user js fs req =
     requireAdmin req (\<lambda>d.
       case deleteUser fs (parseInt js (req_params_id req)) d of
         (Inr _, d') \<Rightarrow> (Sent 200 (Text ''OK''), d')
       | (Inl e, d') \<Rightarrow> (Sent 404 (Json_message ''User not found''), d'))"

subsection \<open>GET /api/attendance\<close>

text \<open>
  A student gets the rows of their own user id. For the other roles the handler tests
  \<^verbatim>\<open>classId && date\<close>: a query parameter that is missing or the empty string is falsy,
  and then no statement is sent. No exception is caught in this handler.
\<close>

definition get_attendance :: "builtins \<Rightarrow> faults \<Rightarrow> request \<Rightarrow> db \<Rightarrow> result \<times> db" where
  "get_attendance js fs req d =
     (case req_user req of
        None \<Rightarrow> (Sent 401 (Text ''Unauthorized''), d)
      | Some caller \<Rightarrow>
          (case (if u_role caller = Student then getAttendanceByUser fs (u_id caller) d
                 else
                   (case (req_query_classId req, req_query_date req) of
                      (Some classId, Some date) \<Rightarrow>
                        if classId \<noteq> [] \<and> date \<noteq> []
                        then getAttendanceByClass fs (parseInt js classId) (newDate js date) d
                        else (Inr [], d)
                    | _ \<Rightarrow> (Inr [], d))) of
             (Inr rows, d') \<Rightarrow> (Sent 200 (Json_attendance_list rows), d')
           | (Inl e, d') \<Rightarrow> (Unhandled e, d')))"

subsection \<open>POST /api/attendance\<close>

text \<open>
  The object given to the schema is \<^verbatim>\<open>{...req.body, markedBy: req.user.id}\<close>: the
  properties of the body, then \<^verbatim>\<open>markedBy\<close>, which replaces a property of that name.
  Spreading a body that is not an object adds nothing the schema reads (nothing at all, or
  properties named by indices).
\<close>

definition spread :: "jsval option \<Rightarrow> (string \<times> jsval) list" where
  "spread b = (case b of Some (JObj kv) \<Rightarrow> kv | _ \<Rightarrow> [])"

text \<open>
  \<^verbatim>\<open>insertAttendanceSchema\<close> is derived from the table: a number for each integer
  column, a date for the timestamp, one of the three names for the status, and for the
  nullable \<^verbatim>\<open>notes\<close> a string, \<^verbatim>\<open>null\<close> or nothing. Every column that is
  \<^verbatim>\<open>notNull()\<close> is required.
\<close>

definition z_number :: "jsval option \<Rightarrow> int option" where
  "z_number v = (case v of Some (JNum n) \<Rightarrow> Some n | _ \<Rightarrow> None)"

definition z_date :: "jsval option \<Rightarrow> timestamp option" where
  "z_date v = (case v of Some (JDate t) \<Rightarrow> Some t | _ \<Rightarrow> None)"

definition z_enum_status :: "jsval option \<Rightarrow> attendance_status option" where
  "z_enum_status v =
     (case v of
        Some (JStr s) \<Rightarrow>
          if s = ''present'' then Some Present
          else if s = ''absent'' then Some Absent
          else if s = ''late'' then Some Late
          else None
      | _ \<Rightarrow> None)"

definition z_string_nullable_optional :: "jsval option \<Rightarrow> string option option" where
  "z_string_nullable_optional v =
     (case v of
        None \<Rightarrow> Some None
      | Some JNull \<Rightarrow> Some None
      | Some (JStr s) \<Rightarrow> Some (Some s)
      | Some _ \<Rightarrow> None)"

definition insertAttendanceSchema :: "(string \<times> jsval) list \<Rightarrow> attendance_insert option" where
  "insertAttendanceSchema kv =
     (case (z_number (map_of kv ''userId''), z_number (map_of kv ''subjectId''),
            z_number (map_of kv ''classLevelId''), z_date (map_of kv ''date''),
            z_enum_status (map_of kv ''status''), z_number (map_of kv ''markedBy''),
            z_string_nullable_optional (map_of kv ''notes'')) of
        (Some userId, Some subjectId, Some classLevelId, Some date, Some status,
         Some markedBy, Some notes) \<Rightarrow>
          Some \<lparr>ins_userId = userId, ins_subjectId = subjectId,
                ins_classLevelId = classLevelId, ins_date = date, ins_status = status,
                ins_markedBy = markedBy, ins_notes = notes\<rparr>
      | _ \<Rightarrow> None)"

text \<open>
  The handler reads \<^verbatim>\<open>req.user.id\<close>, which throws when there is no user; behind
  \<^verbatim>\<open>requireTeacher\<close> there is one. An exception of \<^verbatim>\<open>createAttendance\<close> is not caught.
\<close>

definition post_attendance :: "faults \<Rightarrow> request \<Rightarrow> db \<Rightarrow> result \<times> db" where
  "post_attendance fs req =
     requireTeacher req (\<lambda>d.
       case req_user req of
         None \<Rightarrow> (Unhandled TypeError, d)
       | Some caller \<Rightarrow>
           (case insertAttendanceSchema
                   ((''markedBy'', JNum (u_id caller)) # spread (req_body req)) of
              None \<Rightarrow> (Sent 400 Json_zod_error, d)
            | Some data \<Rightarrow>
                (case createAttendance fs data d of
                   (Inr row, d') \<Rightarrow> (Sent 201 (Json_attendance row), d')
                 | (Inl e, d') \<Rightarrow> (Unhandled e, d'))))"

subsection \<open>POST /api/students/:id/promote\<close>

text \<open>
  The handler takes \<^verbatim>\<open>newClassId\<close> and \<^verbatim>\<open>academicYear\<close> from the body as they are and
  passes them on. \<^verbatim>\<open>promoteStudent\<close> declares both as numbers, and the two numbers of the
  body are arguments here.
\<close>

definition post_promote ::
  "builtins \<Rightarrow> faults \<Rightarrow> request \<Rightarrow> int \<Rightarrow> int \<Rightarrow> db \<Rightarrow> result \<times> db" where
  "post_promote js fs req newClassId academicYear =
     requireAdmin req (\<lambda>d.
       case promoteStudent fs (parseInt js (req_params_id req)) newClassId academicYear d of
         (Inr _, d') \<Rightarrow> (Sent 200 (Text ''OK''), d')
       | (Inl e, d') \<Rightarrow> (Sent 500 (Json_message ''Failed to promote student''), d'))"

section \<open>Numbers of JavaScript\<close>

text \<open>
  The dashboard computes with the \<^verbatim>\<open>number\<close> type, IEEE 754 binary64. A finite number
  is the rational it denotes, and an operation returns the exact result rounded to the
  nearest number with 53 significant bits, a tie going to the even significand.
  \<open>bitlen\<close> is the length of a positive integer in bits, \<open>expo x\<close> the exponent \<open>e\<close> with
  \<open>2\<^sup>e \<le> x < 2\<^sup>e\<^sup>+\<^sup>1\<close>, \<open>rne\<close> rounds to the nearest integer, ties to even. The range of the
  exponent is not limited here: results of magnitude \<open>2\<^sup>1\<^sup>0\<^sup>2\<^sup>4\<close> and above (\<^verbatim>\<open>Infinity\<close>)
  or below \<open>2\<^sup>-\<^sup>1\<^sup>0\<^sup>2\<^sup>2\<close> (subnormal) are outside what these definitions describe, as are
  \<^verbatim>\<open>NaN\<close> and the sign of zero.
\<close>

function bitlen :: "int \<Rightarrow> nat" where
  "bitlen n = (if n \<le> 0 then 0 else Suc (bitlen (n div 2)))"
  by pat_completeness auto
termination
  by (relation "measure nat") auto

declare bitlen.simps [simp del]

definition rne :: "rat \<Rightarrow> int" where
  "rne y =
     (let f = \<lfloor>y\<rfloor>; r = y - of_int f
      in if r < 1 / 2 then f else if 1 / 2 < r then f + 1 else if even f then f else f + 1)"

definition expo :: "rat \<Rightarrow> int" where
  "expo x =
     (let (a, b) = quotient_of x;
          k = int (bitlen a) - int (bitlen b)
      in if 2 powi k \<le> x then k else k - 1)"

definition double_of :: "rat \<Rightarrow> rat" where
  "double_of x =
     (if x = 0 then 0
      else let u = 2 powi (expo \<bar>x\<bar> - 52)
           in sgn x * of_int (rne (\<bar>x\<bar> / u)) * u)"

definition js_add :: "rat \<Rightarrow> rat \<Rightarrow> rat" where
  "js_add a b = double_of (a + b)"

definition js_div :: "rat \<Rightarrow> rat \<Rightarrow> rat" where
  "js_div a b = double_of (a / b)"

definition js_mul :: "rat \<Rightarrow> rat \<Rightarrow> rat" where
  "js_mul a b = double_of (a * b)"

definition number :: "int \<Rightarrow> rat" where
  "number n = double_of (of_int n)"

section \<open>Attendance statistics on the dashboard\<close>

text \<open>
  The \<^verbatim>\<open>AttendanceStats\<close> component receives one entry per month and computes the
  overall figures. \<^verbatim>\<open>monthlyStats\<close> is \<^verbatim>\<open>undefined\<close> (\<open>None\<close>) until the query has
  data, and \<^verbatim>\<open>monthlyStats?.reduce(...) || 0\<close> is then 0. The day counts arrive as
  integers of the response, \<open>number n\<close> being the number the browser holds for \<open>n\<close>;
  every \<^verbatim>\<open>+\<close>, \<^verbatim>\<open>/\<close> and \<^verbatim>\<open>*\<close> of the component is the rounding operation.
\<close>

record stats =
  presentDays :: int
  absentDays :: int
  lateDays :: int
  attendancePercentage :: rat

record monthly_stats =
  month :: int
  year :: int
  stats :: stats

definition totalDays :: "monthly_stats list option \<Rightarrow> rat" where
  "totalDays monthlyStats =
     (case monthlyStats of
        None \<Rightarrow> 0
      | Some ms \<Rightarrow>
          foldl (\<lambda>acc month.
                   js_add (js_add (js_add acc (number (presentDays (stats month))))
                                  (number (absentDays (stats month))))
                          (number (lateDays (stats month)))) 0 ms)"

definition totalPresent :: "monthly_stats list option \<Rightarrow> rat" where
  "totalPresent monthlyStats =
     (case monthlyStats of
        None \<Rightarrow> 0
      | Some ms \<Rightarrow> foldl (\<lambda>acc month. js_add acc (number (presentDays (stats month)))) 0 ms)"

definition overallAttendance :: "monthly_stats list option \<Rightarrow> rat" where
  "overallAttendance monthlyStats =
     (if totalDays monthlyStats \<noteq> 0
      then js_mul (js_div (totalPresent monthlyStats) (totalDays monthlyStats)) 100
      else 0)"

section \<open>A small school\<close>

text \<open>
  Concrete data on which the definitions are evaluated: one student, one teacher and one
  administrator, an empty attendance register, a backend that fails no statement, and
  simple instances of the three parameters (\<open>parseInt_decimal\<close> reads an optional sign
  and the decimal digits that follow it).
\<close>

definition alice :: user where
  "alice = \<lparr>u_id = 1, u_username = ''alice'', u_password = ''hash-a'', u_role = Student,
            u_fullName = ''Alice A'', u_email = ''alice@school.test'',
            u_profilePicture = None, u_currentClassId = Some 1, u_academicYear = Some 2024\<rparr>"

definition bob :: user where
  "bob = \<lparr>u_id = 2, u_username = ''bob'', u_password = ''hash-b'', u_role = Teacher,
          u_fullName = ''Bob B'', u_email = ''bob@school.test'',
          u_profilePicture = None, u_currentClassId = None, u_academicYear = None\<rparr>"

definition carol :: user where
  "carol = \<lparr>u_id = 3, u_username = ''carol'', u_password = ''hash-c'', u_role = Admin,
            u_fullName = ''Carol C'', u_email = ''carol@school.test'',
            u_profilePicture = None, u_currentClassId = None, u_academicYear = None\<rparr>"

definition school :: db where
  "school = \<lparr>users = [alice, bob, carol], studentAcademics = [], attendance = [],
             examResults = [], studentAcademics_id_seq = 1, attendance_id_seq = 1\<rparr>"

definition no_faults :: faults where
  "no_faults = (\<lambda>k. False)"

text \<open>Backends that fail the first, or the second, statement of a call.\<close>

definition first_fails :: faults where
  "first_fails = (\<lambda>k. k = 0)"

definition second_fails :: faults where
  "second_fails = (\<lambda>k. k = 1)"

definition digit :: "char \<Rightarrow> int option" where
  "digit c =
     map_of [(CHR ''0'', 0), (CHR ''1'', 1), (CHR ''2'', 2), (CHR ''3'', 3), (CHR ''4'', 4),
             (CHR ''5'', 5), (CHR ''6'', 6), (CHR ''7'', 7), (CHR ''8'', 8), (CHR ''9'', 9)] c"

fun digits :: "int option \<Rightarrow> string \<Rightarrow> int option" where
  "digits acc [] = acc"
| "digits acc (c # cs) =
     (case digit c of
        None \<Rightarrow> acc
      | Some v \<Rightarrow> digits (Some (or_else acc 0 * 10 + v)) cs)"

definition parseInt_decimal :: "string \<Rightarrow> jsnum" where
  "parseInt_decimal s =
     (case s of
        [] \<Rightarrow> NaN
      | c # cs \<Rightarrow>
          if c = CHR ''-'' then (case digits None cs of None \<Rightarrow> NaN | Some n \<Rightarrow> Num (- n))
          else if c = CHR ''+'' then (case digits None cs of None \<Rightarrow> NaN | Some n \<Rightarrow> Num n)
          else (case digits None s of None \<Rightarrow> NaN | Some n \<Rightarrow> Num n))"

definition js0 :: builtins where
  "js0 = \<lparr>parseInt = parseInt_decimal,
          newDate = (\<lambda>s. if s = ''1970-01-01T00:00:00.000Z'' then Some 0 else None),
          isEmail = (\<lambda>s. CHR ''@'' \<in> set s)\<rparr>"

definition request_of :: "user \<Rightarrow> string \<Rightarrow> jsval option \<Rightarrow> request" where
  "request_of caller path_id b =
     \<lparr>req_user = Some caller, req_params_id = path_id, req_query_classId = None,
      req_query_date = None, req_body = b\<rparr>"

text \<open>Two months of statistics: 29 days present out of 50, and a month without school.\<close>

definition spring :: monthly_stats where
  "spring = \<lparr>month = 3, year = 2025,
     stats = \<lparr>presentDays = 29, absentDays = 21, lateDays = 0, attendancePercentage = 58\<rparr>\<rparr>"

definition idle :: monthly_stats where
  "idle = \<lparr>month = 8, year = 2025,
     stats = \<lparr>presentDays = 0, absentDays = 0, lateDays = 0, attendancePercentage = 0\<rparr>\<rparr>"

text \<open>A body for \<^verbatim>\<open>POST /api/attendance\<close> that names somebody else as the marker.\<close>

definition marking :: jsval where
  "marking = JObj [(''userId'', JNum 1), (''subjectId'', JNum 5), (''classLevelId'', JNum 1),
                   (''date'', JDate 0), (''status'', JStr ''present''), (''markedBy'', JNum 999)]"

section \<open>Deleting a user\<close>

lemma parseInt_js0_1: "parseInt js0 ''1'' = Num 1"
  by (simp add: js0_def parseInt_decimal_def digit_def or_else_def)

lemma delete_user_store:
  "snd (delete_user js fs req d) = d \<or>
   snd (delete_user js fs req d) = snd (deleteUser fs (parseInt js (req_params_id req)) d)"
  by (simp add: delete_user_def requireAdmin_def split: option.splits prod.splits sum.splits)

lemma deleteUser_tables:
  "attendance (snd (deleteUser fs i d)) = attendance d"
  "examResults (snd (deleteUser fs i d)) = examResults d"
  by (cases i; simp add: deleteUser_def delete_users_def)+

text \<open>
  C8. Deleting a user does not cascade: whatever the key and whatever the backend does
  with the statement, \<^verbatim>\<open>deleteUser\<close> leaves the attendance and the exam result tables
  exactly as they were, and with them every row that refers to the user; so does the
  handler of \<^verbatim>\<open>DELETE /api/users/:id\<close> for every request. (The references of the schema
  name no action on delete, so the database removes no such row either; at most it
  rejects the statement, one of the outcomes \<open>fs\<close> stands for.)
\<close>

theorem deleteUser_no_cascade:
  "attendance (snd (deleteUser fs i d)) = attendance d \<and>
   examResults (snd (deleteUser fs i d)) = examResults d \<and>
   attendance (snd (delete_user js fs req d)) = attendance d \<and>
   examResults (snd (delete_user js fs req d)) = examResults d"
  using delete_user_store [of js fs req d]
  by (auto simp add: deleteUser_tables)

section \<open>Who may delete and what a listing without filter returns\<close>

text \<open>
  C5. A student who calls \<^verbatim>\<open>DELETE /api/users/:id\<close> is stopped by \<^verbatim>\<open>requireAdmin\<close>:
  whatever the target id, the response is 403 Forbidden, no statement is sent and the
  store is the one before the request.
\<close>

theorem student_delete_forbidden:
  assumes "req_user req = Some caller" and "u_role caller = Student"
  shows "delete_user js fs req d = (Sent 403 (Text ''Forbidden''), d)"
  using assms by (simp add: delete_user_def requireAdmin_def)

theorem student_delete_forbidden_witness:
  "req_user (request_of alice ''2'' None) = Some alice \<and> u_role alice = Student \<and>
   delete_user js0 no_faults (request_of alice ''2'' None) school =
     (Sent 403 (Text ''Forbidden''), school)"
proof -
  have h1: "req_user (request_of alice ''2'' None) = Some alice"
    by (simp add: request_of_def)
  have h2: "u_role alice = Student"
    by (simp add: alice_def)
  from h1 h2 student_delete_forbidden [OF h1 h2, of js0 no_faults school]
  show ?thesis by simp
qed

text \<open>
  C9. A teacher or an administrator who calls \<^verbatim>\<open>GET /api/attendance\<close> without the
  \<^verbatim>\<open>classId\<close> parameter, without the \<^verbatim>\<open>date\<close> parameter or without both gets 200
  with the empty list; no statement is sent, so nothing can fail.
\<close>

theorem attendance_listing_without_filter:
  assumes "req_user req = Some caller"
    and "u_role caller = Teacher \<or> u_role caller = Admin"
    and "req_query_classId req = None \<or> req_query_date req = None"
  shows "get_attendance js fs req d = (Sent 200 (Json_attendance_list []), d)"
  using assms by (auto simp add: get_attendance_def split: option.splits)

theorem attendance_listing_without_filter_witness:
  "req_user ((request_of bob [] None)\<lparr>req_query_classId := Some ''1''\<rparr>) = Some bob \<and>
   (u_role bob = Teacher \<or> u_role bob = Admin) \<and>
   (req_query_classId ((request_of bob [] None)\<lparr>req_query_classId := Some ''1''\<rparr>) = None \<or>
    req_query_date ((request_of bob [] None)\<lparr>req_query_classId := Some ''1''\<rparr>) = None) \<and>
   get_attendance js0 no_faults ((request_of bob [] None)\<lparr>req_query_classId := Some ''1''\<rparr>)
     school = (Sent 200 (Json_attendance_list []), school)"
proof -
  let ?req = "(request_of bob [] None)\<lparr>req_query_classId := Some ''1''\<rparr>"
  have h1: "req_user ?req = Some bob"
    by (simp add: request_of_def)
  have h2: "u_role bob = Teacher \<or> u_role bob = Admin"
    by (simp add: bob_def)
  have h3: "req_query_classId ?req = None \<or> req_query_date ?req = None"
    by (simp add: request_of_def)
  from h1 h2 h3 attendance_listing_without_filter [OF h1 h2 h3, of js0 no_faults school]
  show ?thesis by simp
qed

section \<open>What a profile update can change\<close>

lemma update_users_password:
  "map u_password (users (snd (update_users failed data i d))) = map u_password (users d)"
  by (cases i) (simp_all add: update_users_def apply_set_def comp_def)

lemma update_users_role:
  "set_role data = None \<Longrightarrow>
   map u_role (users (snd (update_users failed data i d))) = map u_role (users d)"
  by (cases i) (simp_all add: update_users_def apply_set_def comp_def or_else_def)

lemma updateUser_store:
  "snd (updateUser fs i data d) = snd (update_users (fs 0) data i d)"
  by (simp add: updateUser_def split: prod.splits sum.splits)

text \<open>The handler leaves the store alone or runs the one update the schema let through.\<close>

lemma patch_user_store:
  "snd (patch_user js fs req d) = d \<or>
   (\<exists>caller data. req_user req = Some caller \<and>
      updateSchema js caller (req_body req) = Some data \<and>
      snd (patch_user js fs req d) =
        snd (update_users (fs 0) data (parseInt js (req_params_id req)) d))"
  by (auto simp add: patch_user_def updateUser_store [symmetric]
      split: option.splits prod.splits sum.splits)

lemma updateSchema_role:
  "updateSchema js caller b = Some data \<Longrightarrow> u_role caller \<noteq> Admin \<Longrightarrow> set_role data = None"
  by (auto simp add: updateSchema_def Let_def z_undefined_def given_def
      split: option.splits jsval.splits if_splits parsed.splits)

lemma updateSchema_names_role:
  "u_role caller \<noteq> Admin \<Longrightarrow> map_of kv ''role'' \<noteq> None \<Longrightarrow>
   updateSchema js caller (Some (JObj kv)) = None"
  by (auto simp add: updateSchema_def Let_def z_undefined_def)

text \<open>
  C10. No \<^verbatim>\<open>PATCH /api/users/:id\<close> changes a stored password: for every caller, the
  administrator included, every body and every outcome of the statement, the passwords
  of the users table after the request are those before it. The same holds for
  \<^verbatim>\<open>updateUser\<close> itself, whose argument has no password field.
\<close>

theorem patch_user_keeps_passwords:
  "map u_password (users (snd (patch_user js fs req d))) = map u_password (users d) \<and>
   map u_password (users (snd (updateUser fs i data d))) = map u_password (users d)"
  using patch_user_store [of js fs req d]
  by (auto simp add: update_users_password updateUser_store)

text \<open>
  C6. A caller who is not an administrator cannot change a role through
  \<^verbatim>\<open>PATCH /api/users/:id\<close>: whatever the body and the target, the role of every stored
  user is the one before the request; and on the caller's own id a body that names
  \<^verbatim>\<open>role\<close> is rejected with 400 before any statement is sent.
\<close>

theorem patch_role_admin_only:
  assumes "req_user req = Some caller" and "u_role caller \<noteq> Admin"
  shows "map u_role (users (snd (patch_user js fs req d))) = map u_role (users d) \<and>
         (parseInt js (req_params_id req) = Num (u_id caller) \<longrightarrow>
          (\<forall>kv. req_body req = Some (JObj kv) \<and> map_of kv ''role'' \<noteq> None \<longrightarrow>
             patch_user js fs req d = (Sent 400 Json_zod_error, d)))"
proof
  from patch_user_store [of js fs req d] assms updateSchema_role update_users_role
  show "map u_role (users (snd (patch_user js fs req d))) = map u_role (users d)"
    by auto
next
  show "parseInt js (req_params_id req) = Num (u_id caller) \<longrightarrow>
          (\<forall>kv. req_body req = Some (JObj kv) \<and> map_of kv ''role'' \<noteq> None \<longrightarrow>
             patch_user js fs req d = (Sent 400 Json_zod_error, d))"
    using assms updateSchema_names_role [of caller _ js]
    by (auto simp add: patch_user_def)
qed

theorem patch_role_admin_only_witness:
  "req_user (request_of alice ''1'' (Some (JObj [(''role'', JStr ''admin'')]))) = Some alice \<and>
   u_role alice \<noteq> Admin \<and>
   parseInt js0 (req_params_id (request_of alice ''1'' (Some (JObj [(''role'', JStr ''admin'')]))))
     = Num (u_id alice) \<and>
   map_of [(''role'', JStr ''admin'')] ''role'' \<noteq> None \<and>
   patch_user js0 no_faults (request_of alice ''1'' (Some (JObj [(''role'', JStr ''admin'')])))
     school = (Sent 400 Json_zod_error, school) \<and>
   map u_role (users (snd (patch_user js0 no_faults
     (request_of alice ''1'' (Some (JObj [(''fullName'', JStr ''Alice B'')]))) school))) =
     [Student, Teacher, Admin]"
proof -
  let ?named = "request_of alice ''1'' (Some (JObj [(''role'', JStr ''admin'')]))"
  let ?plain = "request_of alice ''1'' (Some (JObj [(''fullName'', JStr ''Alice B'')]))"
  have h1: "req_user ?named = Some alice" "req_user ?plain = Some alice"
    by (simp_all add: request_of_def)
  have h2: "u_role alice \<noteq> Admin"
    by (simp add: alice_def)
  have h3: "parseInt js0 (req_params_id ?named) = Num (u_id alice)"
    by (simp add: request_of_def parseInt_js0_1 alice_def)
  have h4: "req_body ?named = Some (JObj [(''role'', JStr ''admin'')])"
    by (simp add: request_of_def)
  have h5: "map_of [(''role'', JStr ''admin'')] ''role'' \<noteq> None"
    by simp
  have roles: "map u_role (users school) = [Student, Teacher, Admin]"
    by (simp add: school_def alice_def bob_def carol_def)
  from patch_role_admin_only [OF h1(1) h2, of js0 no_faults school] h3 h4 h5
  have rejected: "patch_user js0 no_faults ?named school = (Sent 400 Json_zod_error, school)"
    by blast
  from patch_role_admin_only [OF h1(2) h2, of js0 no_faults school] roles
  have kept: "map u_role (users (snd (patch_user js0 no_faults ?plain school))) =
      [Student, Teacher, Admin]"
    by simp
  from h1(1) h2 h3 h5 rejected kept show ?thesis
    by (intro conjI)
qed

section \<open>Recording attendance\<close>

lemma insertAttendanceSchema_markedBy:
  "insertAttendanceSchema ((''markedBy'', JNum n) # kv) = Some data \<Longrightarrow> ins_markedBy data = n"
  by (auto simp add: insertAttendanceSchema_def z_number_def split: option.splits)

text \<open>
  C7. For a request of an authenticated caller, \<^verbatim>\<open>POST /api/attendance\<close> has two
  outcomes. Either one row is appended to the attendance table, the response is 201 with
  that row, and the row's \<^verbatim>\<open>markedBy\<close> is the caller's id, whatever \<^verbatim>\<open>markedBy\<close> the body
  carried; or the store is unchanged and the response is not a 201.
\<close>

theorem attendance_markedBy_is_caller:
  assumes "req_user req = Some caller"
  shows "(\<exists>row. post_attendance fs req d =
            (Sent 201 (Json_attendance (Some row)),
             d\<lparr>attendance := attendance d @ [row],
               attendance_id_seq := attendance_id_seq d + 1\<rparr>) \<and>
            a_markedBy row = u_id caller) \<or>
         (snd (post_attendance fs req d) = d \<and>
          (\<forall>p. fst (post_attendance fs req d) \<noteq> Sent 201 p))"
proof (cases "u_role caller \<noteq> Teacher \<and> u_role caller \<noteq> Admin")
  case True
  with assms show ?thesis
    by (simp add: post_attendance_def requireTeacher_def)
next
  case allowed: False
  show ?thesis
  proof (cases "insertAttendanceSchema ((''markedBy'', JNum (u_id caller)) # spread (req_body req))")
    case None
    with assms allowed show ?thesis
      by (simp add: post_attendance_def requireTeacher_def)
  next
    case (Some data)
    then have "ins_markedBy data = u_id caller"
      by (rule insertAttendanceSchema_markedBy)
    with assms allowed Some show ?thesis
      by (cases "fs 0")
         (simp_all add: post_attendance_def requireTeacher_def createAttendance_def
            insert_attendance_def Let_def)
  qed
qed

lemma post_attendance_marking:
  "post_attendance no_faults (request_of bob [] (Some marking)) school =
     (Sent 201 (Json_attendance (Some
        \<lparr>a_id = 1, a_userId = 1, a_subjectId = 5, a_classLevelId = 1, a_date = 0,
         a_status = Present, a_markedBy = 2, a_notes = None, a_notificationSent = Some False\<rparr>)),
      school\<lparr>attendance :=
        [\<lparr>a_id = 1, a_userId = 1, a_subjectId = 5, a_classLevelId = 1, a_date = 0,
          a_status = Present, a_markedBy = 2, a_notes = None, a_notificationSent = Some False\<rparr>],
        attendance_id_seq := 2\<rparr>)"
  by (simp add: post_attendance_def requireTeacher_def request_of_def bob_def marking_def
      spread_def insertAttendanceSchema_def z_number_def z_date_def z_enum_status_def
      z_string_nullable_optional_def createAttendance_def insert_attendance_def no_faults_def
      school_def Let_def)

theorem attendance_markedBy_is_caller_witness:
  "req_user (request_of bob [] (Some marking)) = Some bob \<and>
   (\<exists>row. post_attendance no_faults (request_of bob [] (Some marking)) school =
      (Sent 201 (Json_attendance (Some row)),
       school\<lparr>attendance := attendance school @ [row],
         attendance_id_seq := attendance_id_seq school + 1\<rparr>) \<and>
      a_markedBy row = u_id bob \<and> a_markedBy row = 2)"
proof -
  have h: "req_user (request_of bob [] (Some marking)) = Some bob"
    by (simp add: request_of_def)
  have sent: "fst (post_attendance no_faults (request_of bob [] (Some marking)) school) =
      Sent 201 (Json_attendance (Some
        \<lparr>a_id = 1, a_userId = 1, a_subjectId = 5, a_classLevelId = 1, a_date = 0,
         a_status = Present, a_markedBy = 2, a_notes = None, a_notificationSent = Some False\<rparr>))"
    by (simp add: post_attendance_marking)
  have b: "u_id bob = 2"
    by (simp add: bob_def)
  from attendance_markedBy_is_caller [OF h, of no_faults school] sent
  obtain row where
    "post_attendance no_faults (request_of bob [] (Some marking)) school =
      (Sent 201 (Json_attendance (Some row)),
       school\<lparr>attendance := attendance school @ [row],
         attendance_id_seq := attendance_id_seq school + 1\<rparr>)"
    and "a_markedBy row = u_id bob"
    by blast
  with h b show ?thesis
    by auto
qed

section \<open>Attendance percentage\<close>

lemma bitlen_bounds:
  "0 < n \<Longrightarrow> 2 ^ (bitlen n - 1) \<le> n \<and> n < 2 ^ bitlen n \<and> 0 < bitlen n"
proof (induction n rule: bitlen.induct)
  case (1 n)
  show ?case
  proof (cases "n = 1")
    case True
    then show ?thesis
      by (simp add: bitlen.simps [of 1] bitlen.simps [of 0])
  next
    case False
    with 1 have h: "0 < n div 2" "\<not> n \<le> 0"
      by simp_all
    from 1 h have ih: "2 ^ (bitlen (n div 2) - 1) \<le> n div 2" "n div 2 < 2 ^ bitlen (n div 2)"
      "0 < bitlen (n div 2)"
      by simp_all
    have b: "bitlen n = Suc (bitlen (n div 2))"
      using h by (simp add: bitlen.simps [of n])
    from ih(3) have p: "(2::int) ^ bitlen (n div 2) = 2 * 2 ^ (bitlen (n div 2) - 1)"
      by (cases "bitlen (n div 2)") simp_all
    from ih p have lo: "2 ^ bitlen (n div 2) \<le> n"
      by linarith
    from ih(2) have hi: "n < 2 * 2 ^ bitlen (n div 2)"
      by linarith
    from lo hi b show ?thesis
      by simp
  qed
qed

lemma rne_of_int: "rne (of_int n) = n"
  by (simp add: rne_def)

lemma rne_error: "\<bar>of_int (rne y) - y\<bar> \<le> 1 / 2"
proof -
  have "of_int \<lfloor>y\<rfloor> \<le> y" "y < of_int \<lfloor>y\<rfloor> + 1"
    by linarith+
  then show ?thesis
    by (auto simp add: rne_def Let_def)
qed


lemma expo_le:
  assumes "0 < x"
  shows "2 powi expo x \<le> x"
proof -
  obtain a b where q: "quotient_of x = (a, b)"
    by (cases "quotient_of x")
  then have b: "0 < b" and x: "x = of_int a / of_int b"
    by (simp_all add: quotient_of_denom_pos quotient_of_div)
  from assms b x have a: "0 < a"
    by (simp add: zero_less_divide_iff)
  let ?k = "int (bitlen a) - int (bitlen b)"
  show ?thesis
  proof (cases "2 powi ?k \<le> x")
    case True
    with q show ?thesis
      by (simp add: expo_def)
  next
    case False
    with q have e: "expo x = ?k - 1"
      by (simp add: expo_def)
    from bitlen_bounds [OF a] have la: "2 ^ (bitlen a - 1) \<le> a" "0 < bitlen a"
      by simp_all
    from bitlen_bounds [OF b] have lb: "b < 2 ^ bitlen b"
      by simp
    from la(2) have k: "?k - 1 = int (bitlen a - 1) - int (bitlen b)"
      by simp
    have "(2::rat) powi (?k - 1) = 2 ^ (bitlen a - 1) / 2 ^ bitlen b"
      unfolding k by (simp add: power_int_diff)
    also have "\<dots> \<le> of_int a / 2 ^ bitlen b"
    proof -
      from la(1) have "(of_int (2 ^ (bitlen a - 1)) :: rat) \<le> of_int a"
        by (simp only: of_int_le_iff)
      then show ?thesis
        by (simp add: divide_right_mono)
    qed
    also have "\<dots> \<le> of_int a / of_int b"
    proof -
      from lb have "(of_int b :: rat) \<le> of_int (2 ^ bitlen b)"
        by (simp only: of_int_le_iff)
      with a b show ?thesis
        by (simp add: frac_le)
    qed
    finally show ?thesis
      using e x by simp
  qed
qed

lemma double_of_error: "\<bar>double_of x - x\<bar> \<le> \<bar>x\<bar> / 2 ^ 53"
proof (cases "x = 0")
  case True
  then show ?thesis
    by (simp add: double_of_def)
next
  case False
  define a where "a = \<bar>x\<bar>"
  define u :: rat where "u = 2 powi (expo a - 52)"
  define m where "m = rne (a / u)"
  from False have a: "0 < a"
    by (simp add: a_def)
  have u: "0 < u"
    by (simp add: u_def)
  from False have d: "double_of x = sgn x * of_int m * u"
    by (simp add: double_of_def Let_def a_def u_def m_def)
  have x: "x = sgn x * a"
    by (simp add: a_def mult.commute abs_sgn)
  have "double_of x - x = sgn x * (of_int m * u - a)"
    by (subst x, subst d) (simp add: algebra_simps)
  then have "\<bar>double_of x - x\<bar> = \<bar>of_int m * u - a\<bar>"
    using False by (simp add: abs_mult abs_sgn_eq)
  also have "\<dots> = u * \<bar>of_int m - a / u\<bar>"
  proof -
    from u have "of_int m * u - a = u * (of_int m - a / u)"
      by (simp add: field_simps)
    with u show ?thesis
      by (simp add: abs_mult)
  qed
  also have "\<dots> \<le> u * (1 / 2)"
    using u rne_error [of "a / u"] by (simp add: m_def)
  also have "\<dots> = 2 powi expo a / 2 ^ 53"
    by (simp add: u_def power_int_diff)
  also have "\<dots> \<le> a / 2 ^ 53"
    using expo_le [OF a] by (simp add: divide_right_mono)
  finally show ?thesis
    by (simp add: a_def)
qed


lemma double_of_int:
  assumes "0 \<le> n" and "n < 2 ^ 53"
  shows "double_of (of_int n) = of_int n"
proof (cases "n = 0")
  case True
  then show ?thesis
    by (simp add: double_of_def)
next
  case False
  define a :: rat where "a = of_int n"
  from assms(2) have "(of_int n :: rat) < of_int (2 ^ 53)"
    by (simp only: of_int_less_iff)
  then have "a < 2 ^ 53"
    by (simp add: a_def)
  moreover from False assms(1) have "0 < a"
    by (simp add: a_def)
  ultimately have a: "0 < a" "a < 2 ^ 53"
    by simp_all
  have e: "expo a \<le> 52"
  proof (rule ccontr)
    assume "\<not> expo a \<le> 52"
    then have "53 \<le> expo a"
      by simp
    then have "(2::rat) powi 53 \<le> 2 powi expo a"
      by (intro power_int_increasing) simp_all
    with expo_le [OF a(1)] a(2) show False
      by simp
  qed
  define t where "t = nat (52 - expo a)"
  from e have t: "expo a - 52 = - int t"
    by (simp add: t_def)
  have u: "(2::rat) powi (expo a - 52) = inverse (2 ^ t)"
    unfolding t by (simp add: power_int_minus)
  have "a / inverse (2 ^ t) = of_int (n * 2 ^ t)"
    by (simp add: a_def divide_inverse)
  then have r: "rne (a / inverse (2 ^ t)) = n * 2 ^ t"
    by (simp only: rne_of_int)
  from a(1) have "double_of a = of_int (rne (a / inverse (2 ^ t))) * inverse (2 ^ t)"
    by (simp add: double_of_def Let_def u)
  also have "\<dots> = a"
    unfolding r by (simp add: a_def)
  finally show ?thesis
    by (simp add: a_def)
qed


lemma js_add_exact:
  assumes "0 \<le> x" and "0 \<le> y" and "x + y < 2 ^ 53"
  shows "js_add (of_int x) (number y) = of_int (x + y)"
proof -
  from assms have "number y = of_int y"
    unfolding number_def by (intro double_of_int) simp_all
  moreover from assms have "double_of (of_int (x + y)) = of_int (x + y)"
    by (intro double_of_int) simp_all
  ultimately show ?thesis
    by (simp add: js_add_def)
qed

lemma sum_list_map_nonneg:
  "\<forall>m \<in> set ms. 0 \<le> f m \<Longrightarrow> (0::int) \<le> (\<Sum>m\<leftarrow>ms. f m)"
  by (induction ms) simp_all

lemma foldl_present_exact:
  assumes "0 \<le> A"
    and "\<forall>m \<in> set ms. 0 \<le> presentDays (stats m)"
    and "A + (\<Sum>m\<leftarrow>ms. presentDays (stats m)) < 2 ^ 53"
  shows "foldl (\<lambda>acc month. js_add acc (number (presentDays (stats month)))) (of_int A) ms =
         of_int (A + (\<Sum>m\<leftarrow>ms. presentDays (stats m)))"
  using assms
proof (induction ms arbitrary: A)
  case Nil
  then show ?case by simp
next
  case (Cons m ms)
  let ?p = "presentDays (stats m)"
  from Cons.prems have p: "0 \<le> ?p" and rest: "0 \<le> (\<Sum>m\<leftarrow>ms. presentDays (stats m))"
    by (simp_all add: sum_list_map_nonneg)
  from Cons.prems p rest have step: "js_add (of_int A) (number ?p) = of_int (A + ?p)"
    by (intro js_add_exact) simp_all
  from Cons.prems p have "foldl (\<lambda>acc month. js_add acc (number (presentDays (stats month))))
      (of_int (A + ?p)) ms = of_int (A + ?p + (\<Sum>m\<leftarrow>ms. presentDays (stats m)))"
    by (intro Cons.IH) (simp_all add: add.assoc)
  with step show ?case
    by (simp add: add.assoc)
qed


lemma foldl_days_exact:
  assumes "0 \<le> A"
    and "\<forall>m \<in> set ms. 0 \<le> presentDays (stats m) \<and> 0 \<le> absentDays (stats m) \<and>
           0 \<le> lateDays (stats m)"
    and "A + (\<Sum>m\<leftarrow>ms. presentDays (stats m) + absentDays (stats m) + lateDays (stats m))
           < 2 ^ 53"
  shows "foldl (\<lambda>acc month.
                   js_add (js_add (js_add acc (number (presentDays (stats month))))
                                  (number (absentDays (stats month))))
                          (number (lateDays (stats month)))) (of_int A) ms =
         of_int (A + (\<Sum>m\<leftarrow>ms. presentDays (stats m) + absentDays (stats m) +
                        lateDays (stats m)))"
  using assms
proof (induction ms arbitrary: A)
  case Nil
  then show ?case by simp
next
  case (Cons m ms)
  let ?p = "presentDays (stats m)" and ?a = "absentDays (stats m)" and ?l = "lateDays (stats m)"
  let ?rest = "\<Sum>m\<leftarrow>ms. presentDays (stats m) + absentDays (stats m) + lateDays (stats m)"
  from Cons.prems have pos: "0 \<le> ?p" "0 \<le> ?a" "0 \<le> ?l"
    by simp_all
  from Cons.prems have "\<forall>m \<in> set ms. 0 \<le> presentDays (stats m) + absentDays (stats m) +
      lateDays (stats m)"
    by simp
  then have rest: "0 \<le> ?rest"
    by (rule sum_list_map_nonneg)
  from Cons.prems have bound: "A + ?p + ?a + ?l + ?rest < 2 ^ 53"
    by (simp add: add.assoc)
  from Cons.prems(1) pos rest bound have s1: "js_add (of_int A) (number ?p) = of_int (A + ?p)"
    by (intro js_add_exact) simp_all
  from Cons.prems(1) pos rest bound
  have s2: "js_add (of_int (A + ?p)) (number ?a) = of_int (A + ?p + ?a)"
    by (intro js_add_exact) simp_all
  from Cons.prems(1) pos rest bound
  have s3: "js_add (of_int (A + ?p + ?a)) (number ?l) = of_int (A + ?p + ?a + ?l)"
    by (intro js_add_exact) simp_all
  from Cons.prems(1) pos have A': "0 \<le> A + ?p + ?a + ?l"
    by simp
  from Cons.prems(2) have hyp: "\<forall>m \<in> set ms. 0 \<le> presentDays (stats m) \<and>
      0 \<le> absentDays (stats m) \<and> 0 \<le> lateDays (stats m)"
    by simp
  note ih = Cons.IH [OF A' hyp bound]
  show ?case
    by (simp only: foldl_Cons s1 s2 s3 ih sum_list.Cons list.map)
qed

lemma present_le_days:
  "\<forall>m \<in> set ms. 0 \<le> absentDays (stats m) \<and> 0 \<le> lateDays (stats m) \<Longrightarrow>
   (\<Sum>m\<leftarrow>ms. presentDays (stats m)) \<le>
   (\<Sum>m\<leftarrow>ms. presentDays (stats m) + absentDays (stats m) + lateDays (stats m))"
  by (induction ms) simp_all

lemma totals_exact:
  assumes "\<forall>m \<in> set ms. 0 \<le> presentDays (stats m) \<and> 0 \<le> absentDays (stats m) \<and>
           0 \<le> lateDays (stats m)"
    and "(\<Sum>m\<leftarrow>ms. presentDays (stats m) + absentDays (stats m) + lateDays (stats m)) < 2 ^ 53"
  shows "totalDays (Some ms) =
           of_int (\<Sum>m\<leftarrow>ms. presentDays (stats m) + absentDays (stats m) + lateDays (stats m))"
    and "totalPresent (Some ms) = of_int (\<Sum>m\<leftarrow>ms. presentDays (stats m))"
proof -
  from assms foldl_days_exact [of 0 ms]
  show "totalDays (Some ms) =
      of_int (\<Sum>m\<leftarrow>ms. presentDays (stats m) + absentDays (stats m) + lateDays (stats m))"
    by (simp add: totalDays_def)
  from assms(1) have "(\<Sum>m\<leftarrow>ms. presentDays (stats m)) \<le>
      (\<Sum>m\<leftarrow>ms. presentDays (stats m) + absentDays (stats m) + lateDays (stats m))"
    by (intro present_le_days) simp
  with assms(2) have "(\<Sum>m\<leftarrow>ms. presentDays (stats m)) < 2 ^ 53"
    by linarith
  with assms(1) foldl_present_exact [of 0 ms]
  show "totalPresent (Some ms) = of_int (\<Sum>m\<leftarrow>ms. presentDays (stats m))"
    by (simp add: totalPresent_def)
qed

lemma two_roundings:
  assumes "0 \<le> q"
  shows "\<bar>double_of (double_of q * 100) - q * 100\<bar> \<le> q * 100 / 2 ^ 51"
proof -
  define K :: rat where "K = 2 ^ 53"
  have K: "1 \<le> K"
    by (simp add: K_def)
  have K51: "(2::rat) ^ 51 = K / 4"
    by (simp add: K_def)
  define fq where "fq = double_of q"
  define r where "r = double_of (fq * 100)"
  define t where "t = q / K"
  from assms K have t: "0 \<le> t"
    by (simp add: t_def)
  from K t have "t / K \<le> t / 1"
    by (intro divide_left_mono) simp_all
  then have tK: "t / K \<le> t"
    by simp
  from assms double_of_error [of q, folded K_def] have d1: "\<bar>fq - q\<bar> \<le> t"
    by (simp add: fq_def t_def)
  from d1 assms have fq: "\<bar>fq\<bar> \<le> q + t"
    by linarith
  have "fq * 100 - q * 100 = (fq - q) * 100"
    by (simp add: algebra_simps)
  then have "\<bar>fq * 100 - q * 100\<bar> = \<bar>fq - q\<bar> * 100"
    by (simp only: abs_mult)
  with d1 have e1: "\<bar>fq * 100 - q * 100\<bar> \<le> t * 100"
    by simp
  have "\<bar>fq * 100\<bar> = \<bar>fq\<bar> * 100"
    by (simp add: abs_mult)
  with fq have "\<bar>fq * 100\<bar> \<le> (q + t) * 100"
    by simp
  with K have "\<bar>fq * 100\<bar> / K \<le> (q + t) * 100 / K"
    by (intro divide_right_mono) simp_all
  also have "(q + t) * 100 / K = (t + t / K) * 100"
    by (simp add: t_def add_divide_distrib)
  finally have "\<bar>fq * 100\<bar> / K \<le> (t + t / K) * 100" .
  with double_of_error [of "fq * 100", folded K_def]
  have e2: "\<bar>r - fq * 100\<bar> \<le> (t + t / K) * 100"
    unfolding r_def by (rule order_trans)
  have "\<bar>r - q * 100\<bar> \<le> \<bar>r - fq * 100\<bar> + \<bar>fq * 100 - q * 100\<bar>"
    by linarith
  moreover have "(t + t / K) * 100 = t * 100 + t / K * 100"
    by (simp add: algebra_simps)
  ultimately have "\<bar>r - q * 100\<bar> \<le> t * 400"
    using e1 e2 tK t by linarith
  also have "t * 400 = q * 100 / 2 ^ 51"
    unfolding K51 by (simp add: t_def)
  finally show ?thesis
    by (simp only: r_def fq_def)
qed


lemma overallAttendance_rounded:
  assumes "\<forall>m \<in> set ms. 0 \<le> presentDays (stats m) \<and> 0 \<le> absentDays (stats m) \<and>
           0 \<le> lateDays (stats m)"
    and "(\<Sum>m\<leftarrow>ms. presentDays (stats m) + absentDays (stats m) + lateDays (stats m)) < 2 ^ 53"
  shows "overallAttendance (Some ms) =
     (if (\<Sum>m\<leftarrow>ms. presentDays (stats m) + absentDays (stats m) + lateDays (stats m)) = 0 then 0
      else double_of (double_of
             (of_int (\<Sum>m\<leftarrow>ms. presentDays (stats m)) /
              of_int (\<Sum>m\<leftarrow>ms. presentDays (stats m) + absentDays (stats m) + lateDays (stats m)))
             * 100))"
  by (simp add: overallAttendance_def totals_exact [OF assms] js_mul_def js_div_def)

lemma ninety_percent: "double_of (double_of (9 / 10) * 100) = 90"
  by code_simp

lemma fifty_eight_percent: "double_of (double_of (29 / 50) * 100) = 58 - 1 / 2 ^ 47"
  by code_simp

text \<open>
  C4, as the code has it. For day counts that are not negative and sum to less than
  \<open>2\<^sup>5\<^sup>3\<close>, the overall attendance of the dashboard is 0 when there is no day, and
  otherwise the quotient of the days present by all days, rounded to a number, times 100,
  rounded again. It lies within the exact percentage divided by \<open>2\<^sup>5\<^sup>1\<close> of the exact
  percentage \<open>presentDays / (presentDays + absentDays + lateDays) \<times> 100\<close> (the entries of
  one month being the list of one element). 18 days present and 2 absent give exactly 90,
  no day at all gives 0, as does data that has not arrived.
\<close>

theorem overallAttendance_double:
  assumes "\<forall>m \<in> set ms. 0 \<le> presentDays (stats m) \<and> 0 \<le> absentDays (stats m) \<and>
           0 \<le> lateDays (stats m)"
    and "(\<Sum>m\<leftarrow>ms. presentDays (stats m) + absentDays (stats m) + lateDays (stats m)) < 2 ^ 53"
  shows "((\<Sum>m\<leftarrow>ms. presentDays (stats m) + absentDays (stats m) + lateDays (stats m)) = 0 \<longrightarrow>
            overallAttendance (Some ms) = 0) \<and>
         ((\<Sum>m\<leftarrow>ms. presentDays (stats m) + absentDays (stats m) + lateDays (stats m)) \<noteq> 0 \<longrightarrow>
            overallAttendance (Some ms) =
              double_of (double_of
                (of_int (\<Sum>m\<leftarrow>ms. presentDays (stats m)) /
                 of_int (\<Sum>m\<leftarrow>ms. presentDays (stats m) + absentDays (stats m) +
                           lateDays (stats m))) * 100) \<and>
            \<bar>overallAttendance (Some ms) -
               of_int (\<Sum>m\<leftarrow>ms. presentDays (stats m)) /
               of_int (\<Sum>m\<leftarrow>ms. presentDays (stats m) + absentDays (stats m) +
                         lateDays (stats m)) * 100\<bar>
              \<le> of_int (\<Sum>m\<leftarrow>ms. presentDays (stats m)) /
                  of_int (\<Sum>m\<leftarrow>ms. presentDays (stats m) + absentDays (stats m) +
                            lateDays (stats m)) * 100 / 2 ^ 51) \<and>
         overallAttendance (Some [\<lparr>month = mo, year = y,
           stats = \<lparr>presentDays = 18, absentDays = 2, lateDays = 0,
                     attendancePercentage = pct\<rparr>\<rparr>]) = 90 \<and>
         overallAttendance (Some [\<lparr>month = mo, year = y,
           stats = \<lparr>presentDays = 0, absentDays = 0, lateDays = 0,
                     attendancePercentage = pct\<rparr>\<rparr>]) = 0 \<and>
         overallAttendance None = 0"
proof (intro conjI impI)
  let ?P = "\<Sum>m\<leftarrow>ms. presentDays (stats m)"
  let ?D = "\<Sum>m\<leftarrow>ms. presentDays (stats m) + absentDays (stats m) + lateDays (stats m)"
  note rounded = overallAttendance_rounded [OF assms]
  {
    assume "?D = 0"
    with rounded show "overallAttendance (Some ms) = 0"
      by simp
  }
  {
    assume days: "?D \<noteq> 0"
    with rounded show r: "overallAttendance (Some ms) =
        double_of (double_of (of_int ?P / of_int ?D) * 100)"
      by simp
    from assms(1) have "0 \<le> ?P"
      by (intro sum_list_map_nonneg) simp
    moreover from assms(1) have "0 \<le> ?D"
      by (intro sum_list_map_nonneg) simp
    ultimately have "(0::rat) \<le> of_int ?P / of_int ?D"
      by simp
    from two_roundings [OF this]
    show "\<bar>overallAttendance (Some ms) - of_int ?P / of_int ?D * 100\<bar>
        \<le> of_int ?P / of_int ?D * 100 / 2 ^ 51"
      unfolding r .
  }
  show "overallAttendance (Some [\<lparr>month = mo, year = y,
      stats = \<lparr>presentDays = 18, absentDays = 2, lateDays = 0,
                attendancePercentage = pct\<rparr>\<rparr>]) = 90"
    by (subst overallAttendance_rounded) (simp_all add: ninety_percent)
  show "overallAttendance (Some [\<lparr>month = mo, year = y,
      stats = \<lparr>presentDays = 0, absentDays = 0, lateDays = 0,
                attendancePercentage = pct\<rparr>\<rparr>]) = 0"
    by (subst overallAttendance_rounded) simp_all
  show "overallAttendance None = 0"
    by (simp add: overallAttendance_def totalDays_def)
qed

theorem overallAttendance_double_witness:
  "(0 \<le> presentDays (stats spring) \<and> 0 \<le> absentDays (stats spring) \<and>
      0 \<le> lateDays (stats spring)) \<and>
   (\<Sum>m\<leftarrow>[spring]. presentDays (stats m) + absentDays (stats m) + lateDays (stats m)) = 50 \<and>
   overallAttendance (Some [spring]) = double_of (double_of (29 / 50) * 100) \<and>
   \<bar>overallAttendance (Some [spring]) - 58\<bar> \<le> 58 / 2 ^ 51 \<and>
   (0 \<le> presentDays (stats idle) \<and> 0 \<le> absentDays (stats idle) \<and>
      0 \<le> lateDays (stats idle)) \<and>
   (\<Sum>m\<leftarrow>[idle]. presentDays (stats m) + absentDays (stats m) + lateDays (stats m)) = 0 \<and>
   overallAttendance (Some [idle]) = 0"
proof -
  have s1: "\<forall>m \<in> set [spring]. 0 \<le> presentDays (stats m) \<and> 0 \<le> absentDays (stats m) \<and>
      0 \<le> lateDays (stats m)"
    by (simp add: spring_def)
  have s2: "(\<Sum>m\<leftarrow>[spring]. presentDays (stats m) + absentDays (stats m) + lateDays (stats m))
      = 50"
    by (simp add: spring_def)
  have s3: "(\<Sum>m\<leftarrow>[spring]. presentDays (stats m)) = 29"
    by (simp add: spring_def)
  have i1: "\<forall>m \<in> set [idle]. 0 \<le> presentDays (stats m) \<and> 0 \<le> absentDays (stats m) \<and>
      0 \<le> lateDays (stats m)"
    by (simp add: idle_def)
  have i2: "(\<Sum>m\<leftarrow>[idle]. presentDays (stats m) + absentDays (stats m) + lateDays (stats m))
      = 0"
    by (simp add: idle_def)
  have "(\<Sum>m\<leftarrow>[spring]. presentDays (stats m) + absentDays (stats m) + lateDays (stats m))
      < 2 ^ 53"
    unfolding s2 by simp
  note t = overallAttendance_double [OF s1 this, unfolded s2 s3]
  have ne: "(50::int) \<noteq> 0"
    by simp
  note ab = t [THEN conjunct2, THEN conjunct1, THEN mp, OF ne]
  from ab [THEN conjunct1]
  have a: "overallAttendance (Some [spring]) = double_of (double_of (29 / 50) * 100)"
    by simp
  from ab [THEN conjunct2]
  have b: "\<bar>overallAttendance (Some [spring]) - 58\<bar> \<le> 58 / 2 ^ 51"
    by simp
  have "(\<Sum>m\<leftarrow>[idle]. presentDays (stats m) + absentDays (stats m) + lateDays (stats m))
      < 2 ^ 53"
    unfolding i2 by simp
  from overallAttendance_double [OF i1 this] i2
  have c: "overallAttendance (Some [idle]) = 0"
    by blast
  have s0: "0 \<le> presentDays (stats spring) \<and> 0 \<le> absentDays (stats spring) \<and>
      0 \<le> lateDays (stats spring)"
    by (simp add: spring_def)
  have i0: "0 \<le> presentDays (stats idle) \<and> 0 \<le> absentDays (stats idle) \<and>
      0 \<le> lateDays (stats idle)"
    by (simp add: idle_def)
  from s0 s2 a b i0 i2 c show ?thesis
    by blast
qed

text \<open>
  The claim as stated, an equality with the exact percentage, fails on the code: 29 days
  present out of 50 are exactly 58 percent, and the dashboard computes
  \<open>58 - 2\<^sup>-\<^sup>4\<^sup>7\<close>, which JavaScript prints as 57.99999999999999.
\<close>

theorem overallAttendance_not_exact:
  "overallAttendance (Some [spring]) = 58 - 1 / 2 ^ 47 \<and>
   of_int (presentDays (stats spring)) /
     of_int (presentDays (stats spring) + absentDays (stats spring) + lateDays (stats spring))
     * 100 = (58::rat) \<and>
   overallAttendance (Some [spring]) \<noteq>
     of_int (presentDays (stats spring)) /
     of_int (presentDays (stats spring) + absentDays (stats spring) + lateDays (stats spring))
     * 100"
proof -
  have v: "overallAttendance (Some [spring]) = 58 - 1 / 2 ^ 47"
    by (subst overallAttendance_rounded) (simp_all add: spring_def fifty_eight_percent)
  have e: "of_int (presentDays (stats spring)) /
     of_int (presentDays (stats spring) + absentDays (stats spring) + lateDays (stats spring))
     * 100 = (58::rat)"
    by (simp add: spring_def)
  from v e show ?thesis
    by simp
qed

section \<open>Student promotion\<close>

text \<open>The object \<^verbatim>\<open>promoteStudent\<close> sets has two values, and what it does to a row.\<close>

lemma promote_set_has_values:
  "\<not> no_values \<lparr>set_username = None, set_role = None, set_fullName = None, set_email = None,
              set_profilePicture = None, set_currentClassId = Some (Some c),
              set_academicYear = Some (Some y)\<rparr>"
  by (simp add: no_values_def)

lemma promote_set_apply:
  "apply_set \<lparr>set_username = None, set_role = None, set_fullName = None, set_email = None,
              set_profilePicture = None, set_currentClassId = Some (Some c),
              set_academicYear = Some (Some y)\<rparr> u =
   u\<lparr>u_currentClassId := Some c, u_academicYear := Some y\<rparr>"
  by (simp add: apply_set_def or_else_def)

lemma promoteStudent_first_fails:
  "fs 0 \<Longrightarrow> promoteStudent fs (Num n) c y d = (Inl StatementFailed, d)"
  by (simp add: promoteStudent_def update_users_def promote_set_has_values)

lemma promoteStudent_second_fails:
  "\<not> fs 0 \<Longrightarrow> fs 1 \<Longrightarrow>
   promoteStudent fs (Num n) c y d =
     (Inl StatementFailed,
      d\<lparr>users := map (\<lambda>u. if u_id u = n
             then u\<lparr>u_currentClassId := Some c, u_academicYear := Some y\<rparr> else u) (users d)\<rparr>)"
  by (simp add: promoteStudent_def update_users_def insert_studentAcademics_def
      promote_set_has_values promote_set_apply)

lemma promoteStudent_both_succeed:
  "\<not> fs 0 \<Longrightarrow> \<not> fs 1 \<Longrightarrow>
   promoteStudent fs (Num n) c y d =
     (Inr (),
      d\<lparr>users := map (\<lambda>u. if u_id u = n
             then u\<lparr>u_currentClassId := Some c, u_academicYear := Some y\<rparr> else u) (users d),
        studentAcademics := studentAcademics d @
          [\<lparr>sa_id = studentAcademics_id_seq d, sa_studentId = n, sa_classLevelId = c,
            sa_academicYear = y, sa_overallGrade = None, sa_promotionStatus = Some Pending,
            sa_remarks = None\<rparr>],
        studentAcademics_id_seq := studentAcademics_id_seq d + 1\<rparr>)"
  by (simp add: promoteStudent_def update_users_def insert_studentAcademics_def
      promote_set_has_values promote_set_apply)

lemma promoteStudent_succeeds_iff:
  "fst (promoteStudent fs (Num n) c y d) = Inr () \<longleftrightarrow> \<not> fs 0 \<and> \<not> fs 1"
proof (cases "fs 0")
  case True
  then show ?thesis by (simp add: promoteStudent_first_fails)
next
  case first: False
  show ?thesis
  proof (cases "fs 1")
    case True
    with first show ?thesis by (simp add: promoteStudent_second_fails)
  next
    case False
    with first show ?thesis by (simp add: promoteStudent_both_succeed)
  qed
qed

lemma promoted_rows:
  assumes "v \<in> set (map (\<lambda>u. if u_id u = n
           then u\<lparr>u_currentClassId := a, u_academicYear := b\<rparr> else u) us)"
    and "u_id v = n"
  shows "u_currentClassId v = a \<and> u_academicYear v = b"
proof -
  let ?f = "\<lambda>u. if u_id u = n then u\<lparr>u_currentClassId := a, u_academicYear := b\<rparr> else u"
  from assms(1) have "v \<in> ?f ` set us"
    by (simp only: set_map)
  then obtain w where v: "v = ?f w"
    by (rule imageE)
  show ?thesis
  proof (cases "u_id w = n")
    case True
    with v show ?thesis by simp
  next
    case False
    with v have "v = w" by simp
    with False assms(2) show ?thesis by simp
  qed
qed

text \<open>
  C2. When \<^verbatim>\<open>promoteStudent\<close> succeeds, every user row with the student's id has the new
  class and the new academic year, the other rows are as before, and exactly one row has
  been appended to the student academics table: the student, the new class, the new year
  and status pending. Nothing else in the store has changed.
\<close>

theorem promoteStudent_effect:
  assumes "promoteStudent fs (Num n) newClassId academicYear d = (Inr (), d')"
  shows "users d' =
           map (\<lambda>u. if u_id u = n
                 then u\<lparr>u_currentClassId := Some newClassId, u_academicYear := Some academicYear\<rparr>
                 else u) (users d) \<and>
         (\<forall>u \<in> set (users d'). u_id u = n \<longrightarrow>
            u_currentClassId u = Some newClassId \<and> u_academicYear u = Some academicYear) \<and>
         studentAcademics d' = studentAcademics d @
           [\<lparr>sa_id = studentAcademics_id_seq d, sa_studentId = n, sa_classLevelId = newClassId,
             sa_academicYear = academicYear, sa_overallGrade = None,
             sa_promotionStatus = Some Pending, sa_remarks = None\<rparr>] \<and>
         attendance d' = attendance d \<and> examResults d' = examResults d"
proof -
  from assms have "fst (promoteStudent fs (Num n) newClassId academicYear d) = Inr ()"
    by simp
  then have ok: "\<not> fs 0" "\<not> fs 1"
    by (simp_all add: promoteStudent_succeeds_iff)
  from assms have d': "d' = snd (promoteStudent fs (Num n) newClassId academicYear d)"
    by simp
  have u: "users d' =
           map (\<lambda>u. if u_id u = n
                 then u\<lparr>u_currentClassId := Some newClassId, u_academicYear := Some academicYear\<rparr>
                 else u) (users d)"
    unfolding d' by (simp add: promoteStudent_both_succeed [OF ok])
  have s: "studentAcademics d' = studentAcademics d @
           [\<lparr>sa_id = studentAcademics_id_seq d, sa_studentId = n, sa_classLevelId = newClassId,
             sa_academicYear = academicYear, sa_overallGrade = None,
             sa_promotionStatus = Some Pending, sa_remarks = None\<rparr>]"
    unfolding d' by (simp add: promoteStudent_both_succeed [OF ok])
  have a: "attendance d' = attendance d" "examResults d' = examResults d"
    unfolding d' by (simp_all add: promoteStudent_both_succeed [OF ok])
  have k: "\<forall>u \<in> set (users d'). u_id u = n \<longrightarrow>
            u_currentClassId u = Some newClassId \<and> u_academicYear u = Some academicYear"
    unfolding u by (intro ballI impI) (rule promoted_rows)
  show ?thesis
    by (intro conjI) (rule u k s a)+
qed


theorem promoteStudent_effect_witness:
  "promoteStudent no_faults (Num 1) 2 2025 school =
     (Inr (), snd (promoteStudent no_faults (Num 1) 2 2025 school)) \<and>
   map (\<lambda>u. (u_id u, u_currentClassId u, u_academicYear u))
     (users (snd (promoteStudent no_faults (Num 1) 2 2025 school))) =
     [(1, Some 2, Some 2025), (2, None, None), (3, None, None)] \<and>
   studentAcademics (snd (promoteStudent no_faults (Num 1) 2 2025 school)) =
     [\<lparr>sa_id = 1, sa_studentId = 1, sa_classLevelId = 2, sa_academicYear = 2025,
       sa_overallGrade = None, sa_promotionStatus = Some Pending, sa_remarks = None\<rparr>]"
proof -
  have "fst (promoteStudent no_faults (Num 1) 2 2025 school) = Inr ()"
    by (simp add: promoteStudent_succeeds_iff no_faults_def)
  then have h: "promoteStudent no_faults (Num 1) 2 2025 school =
      (Inr (), snd (promoteStudent no_faults (Num 1) 2 2025 school))"
    by (simp add: prod_eq_iff)
  note e = promoteStudent_effect [OF h]
  from e have u: "map (\<lambda>u. (u_id u, u_currentClassId u, u_academicYear u))
     (users (snd (promoteStudent no_faults (Num 1) 2 2025 school))) =
     [(1, Some 2, Some 2025), (2, None, None), (3, None, None)]"
    by (simp add: school_def alice_def bob_def carol_def)
  from e have a: "studentAcademics (snd (promoteStudent no_faults (Num 1) 2 2025 school)) =
     [\<lparr>sa_id = 1, sa_studentId = 1, sa_classLevelId = 2, sa_academicYear = 2025,
       sa_overallGrade = None, sa_promotionStatus = Some Pending, sa_remarks = None\<rparr>]"
    by (simp add: school_def)
  from h u a show ?thesis
    by (intro conjI)
qed

text \<open>
  C1, as the code has it. \<^verbatim>\<open>promoteStudent\<close> sends its two writes one after the other,
  with no transaction around them. When the first write fails nothing is changed. When
  the second write fails after the first went through, the call fails, the new class and
  year of the user stay in the store and no student academics row is created. Only when
  both writes go through does the call succeed, with both effects in the store.
\<close>

theorem promoteStudent_two_writes:
  "(fs 0 \<longrightarrow> promoteStudent fs (Num n) c y d = (Inl StatementFailed, d)) \<and>
   (\<not> fs 0 \<and> fs 1 \<longrightarrow>
      fst (promoteStudent fs (Num n) c y d) = Inl StatementFailed \<and>
      users (snd (promoteStudent fs (Num n) c y d)) =
        map (\<lambda>u. if u_id u = n then u\<lparr>u_currentClassId := Some c, u_academicYear := Some y\<rparr>
                  else u) (users d) \<and>
      studentAcademics (snd (promoteStudent fs (Num n) c y d)) = studentAcademics d) \<and>
   (\<not> fs 0 \<and> \<not> fs 1 \<longrightarrow>
      fst (promoteStudent fs (Num n) c y d) = Inr () \<and>
      users (snd (promoteStudent fs (Num n) c y d)) =
        map (\<lambda>u. if u_id u = n then u\<lparr>u_currentClassId := Some c, u_academicYear := Some y\<rparr>
                  else u) (users d) \<and>
      studentAcademics (snd (promoteStudent fs (Num n) c y d)) = studentAcademics d @
        [\<lparr>sa_id = studentAcademics_id_seq d, sa_studentId = n, sa_classLevelId = c,
          sa_academicYear = y, sa_overallGrade = None, sa_promotionStatus = Some Pending,
          sa_remarks = None\<rparr>])"
proof (intro conjI impI)
  assume "fs 0"
  then show "promoteStudent fs (Num n) c y d = (Inl StatementFailed, d)"
    by (rule promoteStudent_first_fails)
next
  assume f: "\<not> fs 0 \<and> fs 1"
  then have e: "promoteStudent fs (Num n) c y d =
     (Inl StatementFailed,
      d\<lparr>users := map (\<lambda>u. if u_id u = n
             then u\<lparr>u_currentClassId := Some c, u_academicYear := Some y\<rparr> else u) (users d)\<rparr>)"
    by (simp add: promoteStudent_second_fails)
  show "fst (promoteStudent fs (Num n) c y d) = Inl StatementFailed"
    unfolding e by simp
  show "users (snd (promoteStudent fs (Num n) c y d)) =
        map (\<lambda>u. if u_id u = n then u\<lparr>u_currentClassId := Some c, u_academicYear := Some y\<rparr>
                  else u) (users d)"
    unfolding e by simp
  show "studentAcademics (snd (promoteStudent fs (Num n) c y d)) = studentAcademics d"
    unfolding e by simp
next
  assume f: "\<not> fs 0 \<and> \<not> fs 1"
  then have ok: "\<not> fs 0" "\<not> fs 1" by simp_all
  note e = promoteStudent_both_succeed [OF ok, of n c y d]
  show "fst (promoteStudent fs (Num n) c y d) = Inr ()"
    unfolding e by simp
  show "users (snd (promoteStudent fs (Num n) c y d)) =
        map (\<lambda>u. if u_id u = n then u\<lparr>u_currentClassId := Some c, u_academicYear := Some y\<rparr>
                  else u) (users d)"
    unfolding e by simp
  show "studentAcademics (snd (promoteStudent fs (Num n) c y d)) = studentAcademics d @
        [\<lparr>sa_id = studentAcademics_id_seq d, sa_studentId = n, sa_classLevelId = c,
          sa_academicYear = y, sa_overallGrade = None, sa_promotionStatus = Some Pending,
          sa_remarks = None\<rparr>]"
    unfolding e by simp
qed

theorem promoteStudent_two_writes_witness:
  "first_fails 0 \<and> promoteStudent first_fails (Num 1) 2 2025 school = (Inl StatementFailed, school) \<and>
   (\<not> second_fails 0 \<and> second_fails 1) \<and>
   fst (promoteStudent second_fails (Num 1) 2 2025 school) = Inl StatementFailed \<and>
   users (snd (promoteStudent second_fails (Num 1) 2 2025 school)) =
     [alice\<lparr>u_currentClassId := Some 2, u_academicYear := Some 2025\<rparr>, bob, carol] \<and>
   studentAcademics (snd (promoteStudent second_fails (Num 1) 2 2025 school)) = [] \<and>
   (\<not> no_faults 0 \<and> \<not> no_faults 1) \<and>
   fst (promoteStudent no_faults (Num 1) 2 2025 school) = Inr () \<and>
   users (snd (promoteStudent no_faults (Num 1) 2 2025 school)) =
     [alice\<lparr>u_currentClassId := Some 2, u_academicYear := Some 2025\<rparr>, bob, carol] \<and>
   studentAcademics (snd (promoteStudent no_faults (Num 1) 2 2025 school)) =
     [\<lparr>sa_id = 1, sa_studentId = 1, sa_classLevelId = 2, sa_academicYear = 2025,
       sa_overallGrade = None, sa_promotionStatus = Some Pending, sa_remarks = None\<rparr>]"
proof -
  have f: "first_fails 0"
    by (simp add: first_fails_def)
  have s: "\<not> second_fails 0" "second_fails 1"
    by (simp_all add: second_fails_def)
  have n: "\<not> no_faults 0" "\<not> no_faults 1"
    by (simp_all add: no_faults_def)
  have ids: "u_id alice = 1" "u_id bob = 2" "u_id carol = 3"
    by (simp_all add: alice_def bob_def carol_def)
  have tables: "users school = [alice, bob, carol]" "studentAcademics school = []"
    "studentAcademics_id_seq school = 1"
    by (simp_all add: school_def)
  from f promoteStudent_two_writes [of first_fails 1 2 2025 school]
  have r1: "promoteStudent first_fails (Num 1) 2 2025 school = (Inl StatementFailed, school)"
    by blast
  from s promoteStudent_two_writes [of second_fails 1 2 2025 school]
  have r2: "fst (promoteStudent second_fails (Num 1) 2 2025 school) = Inl StatementFailed"
    "users (snd (promoteStudent second_fails (Num 1) 2 2025 school)) =
       [alice\<lparr>u_currentClassId := Some 2, u_academicYear := Some 2025\<rparr>, bob, carol]"
    "studentAcademics (snd (promoteStudent second_fails (Num 1) 2 2025 school)) = []"
    by (simp_all add: ids tables)
  from n promoteStudent_two_writes [of no_faults 1 2 2025 school]
  have r3: "fst (promoteStudent no_faults (Num 1) 2 2025 school) = Inr ()"
    "users (snd (promoteStudent no_faults (Num 1) 2 2025 school)) =
       [alice\<lparr>u_currentClassId := Some 2, u_academicYear := Some 2025\<rparr>, bob, carol]"
    "studentAcademics (snd (promoteStudent no_faults (Num 1) 2 2025 school)) =
       [\<lparr>sa_id = 1, sa_studentId = 1, sa_classLevelId = 2, sa_academicYear = 2025,
         sa_overallGrade = None, sa_promotionStatus = Some Pending, sa_remarks = None\<rparr>]"
    by (simp_all add: ids tables)
  from f s n r1 r2 r3 show ?thesis
    by (intro conjI)
qed

text \<open>
  The claim as stated fails: with the second write failing, the call on the student of
  the small school fails, yet the student's class has changed from 1 to 2 and the users
  table is no longer the one before the call, while no student academics row exists.
\<close>

theorem promoteStudent_partial_write:
  "fst (promoteStudent second_fails (Num 1) 2 2025 school) = Inl StatementFailed \<and>
   u_currentClassId alice = Some 1 \<and>
   users school = [alice, bob, carol] \<and>
   users (snd (promoteStudent second_fails (Num 1) 2 2025 school)) =
     [alice\<lparr>u_currentClassId := Some 2, u_academicYear := Some 2025\<rparr>, bob, carol] \<and>
   users (snd (promoteStudent second_fails (Num 1) 2 2025 school)) \<noteq> users school \<and>
   studentAcademics (snd (promoteStudent second_fails (Num 1) 2 2025 school)) = []"
  by (simp add: promoteStudent_second_fails second_fails_def school_def alice_def bob_def
      carol_def)

section \<open>Updating and deleting a user that does not exist\<close>

lemma parseInt_js0_99: "parseInt js0 ''99'' = Num 99"
  by (simp add: js0_def parseInt_decimal_def digit_def or_else_def)

text \<open>
  C3 does not hold of the code. No user of the small school has the id 99. The
  administrator's \<^verbatim>\<open>DELETE /api/users/99\<close> is answered 200 OK, and her
  \<^verbatim>\<open>PATCH /api/users/99\<close> with a new full name is answered 200 with no user in the
  body: \<^verbatim>\<open>deleteUser\<close> and \<^verbatim>\<open>updateUser\<close> return normally when no row has the key, so
  the 404 branch of the two handlers is not taken. The store is unchanged in both cases.
\<close>

theorem absent_user_not_reported:
  "map u_id (users school) = [1, 2, 3] \<and>
   deleteUser no_faults (Num 99) school = (Inr (), school) \<and>
   delete_user js0 no_faults (request_of carol ''99'' None) school =
     (Sent 200 (Text ''OK''), school) \<and>
   patch_user js0 no_faults
     (request_of carol ''99'' (Some (JObj [(''fullName'', JStr ''Nobody'')]))) school =
     (Sent 200 (Json_user None), school)"
proof (intro conjI)
  show "map u_id (users school) = [1, 2, 3]"
    by (simp add: school_def alice_def bob_def carol_def)
  show del: "deleteUser no_faults (Num 99) school = (Inr (), school)"
    by (simp add: deleteUser_def delete_users_def no_faults_def school_def alice_def bob_def
        carol_def)
  show "delete_user js0 no_faults (request_of carol ''99'' None) school =
      (Sent 200 (Text ''OK''), school)"
    by (simp add: delete_user_def requireAdmin_def request_of_def parseInt_js0_99 del)
       (simp add: carol_def)
  have parsed: "updateSchema js0 carol (Some (JObj [(''fullName'', JStr ''Nobody'')])) =
      Some \<lparr>set_username = None, set_role = None, set_fullName = Some ''Nobody'',
            set_email = None, set_profilePicture = None, set_currentClassId = None,
            set_academicYear = None\<rparr>"
    by (simp add: updateSchema_def z_string_min1_optional_def z_string_email_optional_def
        z_string_optional_def z_enum_role_optional_def given_def carol_def Let_def)
  have upd: "updateUser no_faults (Num 99)
      \<lparr>set_username = None, set_role = None, set_fullName = Some ''Nobody'',
       set_email = None, set_profilePicture = None, set_currentClassId = None,
       set_academicYear = None\<rparr> school = (Inr None, school)"
    by (simp add: updateUser_def update_users_def no_values_def no_faults_def school_def
        alice_def bob_def carol_def)
  show "patch_user js0 no_faults
      (request_of carol ''99'' (Some (JObj [(''fullName'', JStr ''Nobody'')]))) school =
      (Sent 200 (Json_user None), school)"
    by (simp add: patch_user_def request_of_def parseInt_js0_99 parsed upd)
       (simp add: carol_def)
qed

end
